theory Spec2Isabelle
  imports Complex_Main
begin

section \<open>Card layout of a FreeCell column (\<open>card_positioning.py\<close>)\<close>

text \<open>
  The source is one function, \<open>card_layout\<close>, over four ambient values that the file
  reads but does not define: \<open>window_height\<close>, \<open>card_height\<close>,
  \<open>pixel_visibility\<close> and \<open>max_cards\<close>. They are taken as a parameter, the
  record \<open>config\<close>.

  Numbers. The card count, the loop index, the result of \<open>ceil\<close> and \<open>excess\<close>
  are Python integers: \<open>int\<close>. The ambient values and everything computed from them
  with \<open>/\<close> are Python numbers; they are modelled as exact rationals (\<open>rat\<close>), so
  every statement below is about the arithmetic of the formulas and not about the rounding
  of binary floating point (rounding, and overflow of a quotient to infinity, are outside
  the model). \<open>/\<close> is the true division of Python 3 and \<open>ceil\<close> is \<open>math.ceil\<close>,
  which returns an integer. Python's \<open>/\<close> raises \<open>ZeroDivisionError\<close> on a zero
  divisor (for integers and for floats alike) and never yields an infinity or a NaN there;
  that raise is a branch of the model.
\<close>

subsection \<open>Data\<close>

record config =
  window_height :: rat
  card_height :: rat
  pixel_visibility :: rat
  max_cards :: rat

text \<open>
  The only exception the source can raise, on rational inputs, is Python's
  \<open>ZeroDivisionError\<close>: it has no \<open>raise\<close> statement and no check of its input.
  The other three constructors are the error signals that the specification names; no
  equation below produces them.
\<close>

datatype error = ZeroDivisionError | InvalidConfiguration | InvalidCardCount | InvalidGeometry

text \<open>Python's true division \<open>a / b\<close>.\<close>

definition truediv :: "rat \<Rightarrow> rat \<Rightarrow> error + rat" where
  "truediv a b = (if b = 0 then Inl ZeroDivisionError else Inr (a / b))"

text \<open>Lines 1 and 2: the module constants.\<close>

definition COMPRESSED_CARD_GROUP_SIZE :: int where
  "COMPRESSED_CARD_GROUP_SIZE = 4"

definition COMPRESSION_FACTOR :: "config \<Rightarrow> rat" where
  "COMPRESSION_FACTOR cfg = card_height cfg * (2 / 100)"

subsection \<open>The derived quantities (lines 8 to 14)\<close>

text \<open>Line 8: \<open>min_num_cards = ceil((window_height - card_height) / pixel_visibility)\<close>.\<close>

definition min_num_cards :: "config \<Rightarrow> error + int" where
  "min_num_cards cfg =
     (case truediv (window_height cfg - card_height cfg) (pixel_visibility cfg) of
        Inl e \<Rightarrow> Inl e
      | Inr q \<Rightarrow> Inr \<lceil>q\<rceil>)"

text \<open>Line 10: \<open>min_pixel_visibility = (window_height - card_height) / (max_cards - 1)\<close>.\<close>

definition min_pixel_visibility :: "config \<Rightarrow> error + rat" where
  "min_pixel_visibility cfg =
     truediv (window_height cfg - card_height cfg) (max_cards cfg - 1)"

text \<open>
  Lines 12 and 13, given the two values above:
  \<open>excess = current_card_count - min_num_cards\<close> and
  \<open>compression_visibility = max(pixel_visibility - excess * COMPRESSION_FACTOR, min_pixel_visibility)\<close>.
\<close>

definition excess :: "int \<Rightarrow> int \<Rightarrow> int" where
  "excess current_card_count mnc = current_card_count - mnc"

definition compression_visibility :: "config \<Rightarrow> int \<Rightarrow> int \<Rightarrow> rat \<Rightarrow> rat" where
  "compression_visibility cfg current_card_count mnc mpv =
     max (pixel_visibility cfg - of_int (excess current_card_count mnc) * COMPRESSION_FACTOR cfg) mpv"

text \<open>
  Line 14, evaluated on every call, before the loop:
  \<open>leftover_visibility = (window_height - card_height
      - compression_visibility * COMPRESSED_CARD_GROUP_SIZE)
      / (current_card_count - COMPRESSED_CARD_GROUP_SIZE - 1)\<close>.
\<close>

definition leftover_visibility :: "config \<Rightarrow> int \<Rightarrow> rat \<Rightarrow> error + rat" where
  "leftover_visibility cfg current_card_count cv =
     truediv (window_height cfg - card_height cfg - cv * of_int COMPRESSED_CARD_GROUP_SIZE)
             (of_int (current_card_count - COMPRESSED_CARD_GROUP_SIZE - 1))"

subsection \<open>The loop (lines 16 to 24)\<close>

text \<open>\<open>range(n)\<close>: the integers \<open>0, ..., n - 1\<close>, none when \<open>n \<le> 0\<close>.\<close>

definition range_py :: "int \<Rightarrow> int list" where
  "range_py n = map int [0..<nat n]"

text \<open>Lines 19 to 22: the shift of a card that is not the bottom card.\<close>

definition shift :: "config \<Rightarrow> int \<Rightarrow> int \<Rightarrow> rat \<Rightarrow> rat \<Rightarrow> int \<Rightarrow> rat" where
  "shift cfg current_card_count mnc cv lv i =
     (if current_card_count \<le> mnc then pixel_visibility cfg
      else (if current_card_count - i \<le> COMPRESSED_CARD_GROUP_SIZE then cv else lv))"

text \<open>
  One iteration: \<open>continue\<close> at the bottom card, else \<open>allocations[i] = shift\<close>.
  The index is in range (\<open>0 \<le> i < len(allocations)\<close>), so the store never raises.
\<close>

definition loop_body :: "config \<Rightarrow> int \<Rightarrow> int \<Rightarrow> rat \<Rightarrow> rat \<Rightarrow> int \<Rightarrow> rat list \<Rightarrow> rat list" where
  "loop_body cfg current_card_count mnc cv lv i allocations =
     (if i = current_card_count - 1 then allocations
      else allocations[nat i := shift cfg current_card_count mnc cv lv i])"

subsection \<open>\<open>card_layout\<close>\<close>

text \<open>
  \<open>[0] * n\<close> is the list of \<open>n\<close> zeros, empty when \<open>n \<le> 0\<close>. The second argument is
  \<open>focus_card_index\<close>.
\<close>

definition card_layout :: "config \<Rightarrow> int \<Rightarrow> int \<Rightarrow> error + rat list" where
  "card_layout cfg current_card_count focus_card_index =
     (let allocations = replicate (nat current_card_count) (0::rat) in
      case min_num_cards cfg of
        Inl e \<Rightarrow> Inl e
      | Inr mnc \<Rightarrow>
          (case min_pixel_visibility cfg of
             Inl e \<Rightarrow> Inl e
           | Inr mpv \<Rightarrow>
               (let cv = compression_visibility cfg current_card_count mnc mpv in
                case leftover_visibility cfg current_card_count cv of
                  Inl e \<Rightarrow> Inl e
                | Inr lv \<Rightarrow>
                    Inr (fold (loop_body cfg current_card_count mnc cv lv)
                           (range_py current_card_count) allocations))))"

subsection \<open>Inputs used in the statements\<close>

text \<open>
  The constraints under which the layout is meant to be used: a card lower than the
  window, more than one card at most, a positive default visibility.
\<close>

definition valid_config :: "config \<Rightarrow> bool" where
  "valid_config cfg \<longleftrightarrow>
     0 < card_height cfg \<and> card_height cfg < window_height cfg \<and>
     1 < max_cards cfg \<and> 0 < pixel_visibility cfg"

text \<open>
  A concrete configuration: window 800, card 200, default visibility 100, at most 10
  cards. Its \<open>COMPRESSION_FACTOR\<close> is \<open>200 * (2 / 100) = 4\<close> and its
  \<open>min_num_cards\<close> is \<open>6\<close>.
\<close>

definition scenario :: config where
  "scenario = \<lparr>window_height = 800, card_height = 200, pixel_visibility = 100, max_cards = 10\<rparr>"

text \<open>The same window and card with a default visibility of 200: \<open>min_num_cards\<close> is \<open>3\<close>.\<close>

definition scenario_wide :: config where
  "scenario_wide = \<lparr>window_height = 800, card_height = 200, pixel_visibility = 200, max_cards = 10\<rparr>"

text \<open>The same with \<open>max_cards = 1\<close>.\<close>

definition scenario_one :: config where
  "scenario_one = \<lparr>window_height = 800, card_height = 200, pixel_visibility = 100, max_cards = 1\<rparr>"

text \<open>
  What the loop leaves at index \<open>i\<close> of \<open>allocations\<close>: the initial \<open>0\<close> at the
  bottom card, the shift elsewhere (lemma \<open>fold_loop_body\<close> below).
\<close>

definition offset :: "config \<Rightarrow> int \<Rightarrow> int \<Rightarrow> rat \<Rightarrow> rat \<Rightarrow> int \<Rightarrow> rat" where
  "offset cfg n mnc cv lv i = (if i = n - 1 then 0 else shift cfg n mnc cv lv i)"

section \<open>The loop in closed form\<close>

lemma fold_loop_body_prefix:
  "k \<le> N \<Longrightarrow>
   fold (loop_body cfg n mnc cv lv) (map int [0..<k]) (replicate N 0) =
   map (offset cfg n mnc cv lv) (map int [0..<k]) @ replicate (N - k) 0"
proof (induction k)
  case 0
  then show ?case by simp
next
  case (Suc k)
  then have IH: "fold (loop_body cfg n mnc cv lv) (map int [0..<k]) (replicate N 0) =
     map (offset cfg n mnc cv lv) (map int [0..<k]) @ replicate (N - k) 0"
    by simp
  from Suc.prems have r: "replicate (N - k) (0::rat) = 0 # replicate (N - Suc k) 0"
    by (cases "N - k") (simp_all add: Suc_diff_Suc)
  have "fold (loop_body cfg n mnc cv lv) (map int [0..<Suc k]) (replicate N 0) =
        loop_body cfg n mnc cv lv (int k)
          (map (offset cfg n mnc cv lv) (map int [0..<k]) @ replicate (N - k) 0)"
    by (simp add: IH)
  also have "\<dots> = map (offset cfg n mnc cv lv) (map int [0..<k]) @
                  offset cfg n mnc cv lv (int k) # replicate (N - Suc k) 0"
    unfolding loop_body_def [of cfg n mnc cv lv "int k"] offset_def [of cfg n mnc cv lv "int k"]
    by (simp add: r list_update_append)
  finally show ?case by simp
qed

lemma fold_loop_body:
  "fold (loop_body cfg n mnc cv lv) (range_py n) (replicate (nat n) 0) =
   map (offset cfg n mnc cv lv) (range_py n)"
  using fold_loop_body_prefix [of "nat n" "nat n" cfg n mnc cv lv]
  by (simp add: range_py_def)

section \<open>When \<open>card_layout\<close> returns and when it raises\<close>

lemma card_layout_Inr:
  assumes "min_num_cards cfg = Inr mnc" and "min_pixel_visibility cfg = Inr mpv"
    and "leftover_visibility cfg n (compression_visibility cfg n mnc mpv) = Inr lv"
  shows "card_layout cfg n f =
         Inr (map (offset cfg n mnc (compression_visibility cfg n mnc mpv) lv) (range_py n))"
  using assms by (simp add: card_layout_def fold_loop_body)

lemma min_num_cards_Inr:
  "pixel_visibility cfg \<noteq> 0 \<Longrightarrow>
   min_num_cards cfg = Inr \<lceil>(window_height cfg - card_height cfg) / pixel_visibility cfg\<rceil>"
  by (simp add: min_num_cards_def truediv_def)

lemma min_pixel_visibility_Inr:
  "max_cards cfg \<noteq> 1 \<Longrightarrow>
   min_pixel_visibility cfg = Inr ((window_height cfg - card_height cfg) / (max_cards cfg - 1))"
  by (simp add: min_pixel_visibility_def truediv_def)

lemma leftover_visibility_Inr:
  "n \<noteq> 5 \<Longrightarrow>
   leftover_visibility cfg n cv =
     Inr ((window_height cfg - card_height cfg - cv * 4) / of_int (n - 5))"
  by (simp add: leftover_visibility_def truediv_def COMPRESSED_CARD_GROUP_SIZE_def)

lemma card_layout_error:
  "card_layout cfg n f = Inl e \<Longrightarrow> e = ZeroDivisionError"
  by (auto simp: card_layout_def min_num_cards_def min_pixel_visibility_def
      leftover_visibility_def truediv_def Let_def split: sum.splits if_splits)

lemma card_layout_raises_iff:
  "card_layout cfg n f = Inl ZeroDivisionError \<longleftrightarrow>
     pixel_visibility cfg = 0 \<or> max_cards cfg = 1 \<or> n = 5"
  by (auto simp: card_layout_def min_num_cards_def min_pixel_visibility_def
      leftover_visibility_def truediv_def Let_def COMPRESSED_CARD_GROUP_SIZE_def
      split: sum.splits if_splits)

section \<open>Facts about the derived quantities\<close>

lemma valid_config_min_num_cards:
  assumes "valid_config cfg" and "min_num_cards cfg = Inr mnc"
  shows "1 \<le> mnc"
    and "of_int (mnc - 1) * pixel_visibility cfg < window_height cfg - card_height cfg"
    and "window_height cfg - card_height cfg \<le> of_int mnc * pixel_visibility cfg"
proof -
  let ?H = "window_height cfg - card_height cfg" and ?p = "pixel_visibility cfg"
  from assms have p: "0 < ?p" and H: "0 < ?H" by (simp_all add: valid_config_def)
  from assms p have m: "mnc = \<lceil>?H / ?p\<rceil>" by (simp add: min_num_cards_Inr)
  from p H have "0 < ?H / ?p" by simp
  then show "1 \<le> mnc" unfolding m by linarith
  have "of_int (mnc - 1) < ?H / ?p" unfolding m by linarith
  with p show "of_int (mnc - 1) * ?p < ?H" by (simp add: pos_less_divide_eq)
  have "?H / ?p \<le> of_int mnc" unfolding m by linarith
  with p show "?H \<le> of_int mnc * ?p" by (simp add: pos_divide_le_eq)
qed

lemma valid_config_compression_visibility:
  assumes "valid_config cfg" and "min_pixel_visibility cfg = Inr mpv"
  shows "0 < mpv" and "0 < compression_visibility cfg n mnc mpv"
proof -
  from assms have "mpv = (window_height cfg - card_height cfg) / (max_cards cfg - 1)"
    by (simp add: valid_config_def min_pixel_visibility_Inr)
  with assms(1) show "0 < mpv" by (simp add: valid_config_def)
  then show "0 < compression_visibility cfg n mnc mpv"
    by (simp add: compression_visibility_def max_def)
qed

lemma map_offset_uncompressed:
  assumes "1 \<le> n" and "n \<le> mnc"
  shows "map (offset cfg n mnc cv lv) (range_py n) =
         replicate (nat (n - 1)) (pixel_visibility cfg) @ [0]"
proof -
  from assms obtain m where m: "nat n = Suc m" by (cases "nat n") auto
  then have n: "n = int m + 1" using assms by linarith
  have "map (offset cfg n mnc cv lv) (map int [0..<m]) = map (\<lambda>_. pixel_visibility cfg) [0..<m]"
    using assms n by (simp add: offset_def shift_def)
  then show ?thesis using m n
    by (simp add: range_py_def offset_def map_replicate_const)
qed

lemma card_layout_Inr_cases:
  assumes "card_layout cfg n f = Inr xs"
  obtains mnc mpv lv where "min_num_cards cfg = Inr mnc" and "min_pixel_visibility cfg = Inr mpv"
    and "leftover_visibility cfg n (compression_visibility cfg n mnc mpv) = Inr lv"
    and "xs = map (offset cfg n mnc (compression_visibility cfg n mnc mpv) lv) (range_py n)"
proof -
  from assms obtain mnc where a: "min_num_cards cfg = Inr mnc"
    by (cases "min_num_cards cfg") (simp_all add: card_layout_def)
  from assms a obtain mpv where b: "min_pixel_visibility cfg = Inr mpv"
    by (cases "min_pixel_visibility cfg") (simp_all add: card_layout_def)
  from assms a b obtain lv
    where c: "leftover_visibility cfg n (compression_visibility cfg n mnc mpv) = Inr lv"
    by (cases "leftover_visibility cfg n (compression_visibility cfg n mnc mpv)")
       (simp_all add: card_layout_def)
  from card_layout_Inr [OF a b c, of f] assms
  have "xs = map (offset cfg n mnc (compression_visibility cfg n mnc mpv) lv) (range_py n)"
    by simp
  with a b c show thesis by (rule that)
qed

lemma card_layout_returns:
  assumes "valid_config cfg" and "n \<noteq> 5"
  shows "\<exists>xs. card_layout cfg n f = Inr xs"
proof (cases "card_layout cfg n f")
  case (Inl e)
  then have "card_layout cfg n f = Inl ZeroDivisionError"
    using card_layout_error by blast
  with assms show ?thesis by (simp add: card_layout_raises_iff valid_config_def)
next
  case (Inr xs)
  then show ?thesis by blast
qed

lemma length_range_py: "length (range_py n) = nat n"
  by (simp add: range_py_def)

lemma last_map_offset:
  assumes "1 \<le> n"
  shows "last (map (offset cfg n mnc cv lv) (range_py n)) = 0"
proof -
  from assms obtain m where m: "nat n = Suc m" by (cases "nat n") auto
  then have "n = int m + 1" using assms by linarith
  with m show ?thesis by (simp add: range_py_def offset_def)
qed

lemma leftover_visibility_budget:
  assumes "leftover_visibility cfg n cv = Inr lv"
  shows "of_int COMPRESSED_CARD_GROUP_SIZE * cv + of_int (n - COMPRESSED_CARD_GROUP_SIZE - 1) * lv =
         window_height cfg - card_height cfg"
proof -
  from assms have n: "n \<noteq> 5"
    by (auto simp: leftover_visibility_def truediv_def COMPRESSED_CARD_GROUP_SIZE_def split: if_splits)
  then have d: "(of_int (n - 5) :: rat) \<noteq> 0" by simp
  from assms n have "lv = (window_height cfg - card_height cfg - cv * 4) / of_int (n - 5)"
    by (simp add: leftover_visibility_Inr)
  with d have "of_int (n - 5) * lv = window_height cfg - card_height cfg - cv * 4"
    by simp
  then show ?thesis by (simp add: COMPRESSED_CARD_GROUP_SIZE_def)
qed

lemma map_offset_compressed:
  assumes "5 \<le> n" and "mnc < n"
  shows "map (offset cfg n mnc cv lv) (range_py n) =
         replicate (nat (n - 4)) lv @ [cv, cv, cv, 0]"
proof -
  from assms(1) have "nat n = Suc (Suc (Suc (Suc (nat n - 4))))" by linarith
  then obtain m where m: "nat n = Suc (Suc (Suc (Suc m)))" ..
  then have n: "n = int m + 4" using assms by linarith
  have "map (offset cfg n mnc cv lv) (map int [0..<m]) = map (\<lambda>_. lv) [0..<m]"
    using assms n by (simp add: offset_def shift_def COMPRESSED_CARD_GROUP_SIZE_def)
  then show ?thesis using m n assms
    by (simp add: range_py_def offset_def shift_def COMPRESSED_CARD_GROUP_SIZE_def map_replicate_const)
qed

lemma map_offset_small:
  assumes "1 \<le> n" and "n \<le> 4" and "mnc < n"
  shows "map (offset cfg n mnc cv lv) (range_py n) = replicate (nat (n - 1)) cv @ [0]"
proof -
  from assms obtain m where m: "nat n = Suc m" by (cases "nat n") auto
  then have n: "n = int m + 1" using assms by linarith
  have "map (offset cfg n mnc cv lv) (map int [0..<m]) = map (\<lambda>_. cv) [0..<m]"
    using assms n by (simp add: offset_def shift_def COMPRESSED_CARD_GROUP_SIZE_def)
  then show ?thesis using m n
    by (simp add: range_py_def offset_def map_replicate_const)
qed

text \<open>
  What the returned offsets add up to in the compressed branch, above five cards: three
  compressed shifts and \<open>cardCount - 4\<close> leftover ones, one leftover shift more and one
  compressed shift less than line 14 divides the window among.
\<close>

lemma sum_list_compressed:
  assumes "min_num_cards cfg = Inr mnc" and "min_pixel_visibility cfg = Inr mpv"
    and "leftover_visibility cfg n (compression_visibility cfg n mnc mpv) = Inr lv"
    and "COMPRESSED_CARD_GROUP_SIZE + 1 < n" and "mnc < n"
    and "card_layout cfg n f = Inr xs"
  shows "sum_list xs =
         window_height cfg - card_height cfg - compression_visibility cfg n mnc mpv + lv"
proof -
  let ?cv = "compression_visibility cfg n mnc mpv"
  from assms(4) have n: "5 \<le> n" by (simp add: COMPRESSED_CARD_GROUP_SIZE_def)
  from assms(6) have "xs = replicate (nat (n - 4)) lv @ [?cv, ?cv, ?cv, 0]"
    unfolding card_layout_Inr [OF assms(1-3)] map_offset_compressed [OF n assms(5)] by simp
  then have "sum_list xs = of_int (n - 4) * lv + 3 * ?cv"
    using n by (simp add: sum_list_replicate)
  moreover have "4 * ?cv + of_int (n - 5) * lv = window_height cfg - card_height cfg"
    using leftover_visibility_budget [OF assms(3)] by (simp add: COMPRESSED_CARD_GROUP_SIZE_def)
  ultimately show ?thesis by (simp add: algebra_simps)
qed

section \<open>The claims\<close>

text \<open>
  C5. Claim: for every \<open>cardCount \<le> 0\<close>, \<open>card_layout\<close> fails with an explicit
  \<open>InvalidCardCount\<close> error instead of returning a result. The source has no check of
  the card count: \<open>[0] * n\<close> and \<open>range(n)\<close> are empty for \<open>n \<le> 0\<close>, the divisor
  \<open>n - 5\<close> is not zero, and the function returns the empty list. As amended: for every
  valid configuration and every \<open>cardCount \<le> 0\<close>, \<open>card_layout\<close> returns the empty
  sequence without error.
\<close>

theorem C5_amended:
  assumes "valid_config cfg" and "n \<le> 0"
  shows "card_layout cfg n f = Inr []"
proof -
  from assms obtain mnc where a: "min_num_cards cfg = Inr mnc"
    by (auto simp: valid_config_def min_num_cards_Inr)
  from assms obtain mpv where b: "min_pixel_visibility cfg = Inr mpv"
    by (auto simp: valid_config_def min_pixel_visibility_Inr)
  from assms(2) have "n \<noteq> 5" by simp
  then obtain lv where c: "leftover_visibility cfg n (compression_visibility cfg n mnc mpv) = Inr lv"
    by (simp add: leftover_visibility_Inr)
  from assms(2) show ?thesis
    unfolding card_layout_Inr [OF a b c] by (simp add: range_py_def)
qed

text \<open>The amended statement at \<open>cardCount = -3\<close>.\<close>

theorem C5_witness:
  "valid_config scenario \<and> (- 3::int) \<le> 0 \<and> card_layout scenario (- 3) 0 = Inr []"
proof -
  have v: "valid_config scenario" by (simp add: valid_config_def scenario_def)
  have h: "(- 3::int) \<le> 0" by simp
  from C5_amended [OF v h, of 0] v h show ?thesis by simp
qed

text \<open>The claim as stated fails at \<open>cardCount = 0\<close> and at \<open>cardCount = -3\<close>.\<close>

theorem C5_counterexample:
  "card_layout scenario 0 0 = Inr [] \<and> card_layout scenario (- 3) 0 = Inr [] \<and>
   card_layout scenario 0 0 \<noteq> Inl InvalidCardCount"
  by code_simp

text \<open>
  C6. Claim: with \<open>maxCards = 1\<close>, \<open>card_layout\<close> fails with a clearly identified
  \<open>InvalidConfiguration\<close> error, with \<open>cardCount = compressedGroupSize + 1 = 5\<close> it
  fails with an explicit arithmetic error, and in neither case does it return a sequence.
  The source raises nothing of its own: both failures are the \<open>ZeroDivisionError\<close> of
  Python's \<open>/\<close>, at line 10 and at line 14 (or already at line 8, when
  \<open>pixel_visibility\<close> is zero). As amended: with \<open>maxCards = 1\<close>, or with
  \<open>cardCount = compressedGroupSize + 1\<close>, \<open>card_layout\<close> fails with
  \<open>ZeroDivisionError\<close>, for every configuration and returns no sequence.
\<close>

theorem C6_amended:
  assumes "max_cards cfg = 1 \<or> n = COMPRESSED_CARD_GROUP_SIZE + 1"
  shows "card_layout cfg n f = Inl ZeroDivisionError"
  using assms by (auto simp: card_layout_raises_iff COMPRESSED_CARD_GROUP_SIZE_def)

text \<open>The amended statement at \<open>maxCards = 1\<close> with six cards, and at five cards.\<close>

theorem C6_witness:
  "max_cards scenario_one = 1 \<and> card_layout scenario_one 6 0 = Inl ZeroDivisionError \<and>
   (5::int) = COMPRESSED_CARD_GROUP_SIZE + 1 \<and> card_layout scenario 5 0 = Inl ZeroDivisionError"
proof -
  have a: "max_cards scenario_one = 1" by (simp add: scenario_one_def)
  have b: "(5::int) = COMPRESSED_CARD_GROUP_SIZE + 1" by (simp add: COMPRESSED_CARD_GROUP_SIZE_def)
  have x: "card_layout scenario_one 6 0 = Inl ZeroDivisionError"
    using C6_amended [where cfg = scenario_one and n = 6 and f = 0] a by blast
  have y: "card_layout scenario 5 0 = Inl ZeroDivisionError"
    using C6_amended [where cfg = scenario and n = 5 and f = 0] b by blast
  show ?thesis by (intro conjI a x b y)
qed

text \<open>With \<open>maxCards = 1\<close> the error is not \<open>InvalidConfiguration\<close>.\<close>

theorem C6_counterexample:
  "card_layout scenario_one 6 0 = Inl ZeroDivisionError \<and>
   card_layout scenario_one 6 0 \<noteq> Inl InvalidConfiguration"
  by code_simp

text \<open>
  C8. For every \<open>cardCount \<ge> 1\<close> on which \<open>card_layout\<close> returns, the returned
  sequence has length exactly \<open>cardCount\<close> and its last element is exactly \<open>0\<close>.
  (It returns for every valid configuration and every \<open>cardCount \<noteq> 5\<close>: lemma
  \<open>card_layout_returns\<close>.)
\<close>

theorem C8_length_and_bottom:
  assumes "1 \<le> n" and "card_layout cfg n f = Inr xs"
  shows "length xs = nat n \<and> last xs = 0"
proof -
  from assms(2) obtain mnc mpv lv
    where "xs = map (offset cfg n mnc (compression_visibility cfg n mnc mpv) lv) (range_py n)"
    by (rule card_layout_Inr_cases)
  with assms(1) show ?thesis by (simp add: length_range_py last_map_offset)
qed

text \<open>At six cards in the concrete configuration.\<close>

theorem C8_witness:
  "(1::int) \<le> 6 \<and> card_layout scenario 6 0 = Inr [100, 100, 100, 100, 100, 0] \<and>
   length [100, 100, 100, 100, 100, 0::rat] = nat 6 \<and> last [100, 100, 100, 100, 100, 0::rat] = 0"
proof -
  have h: "(1::int) \<le> 6" by simp
  have e: "card_layout scenario 6 0 = Inr [100, 100, 100, 100, 100, 0]" by code_simp
  from C8_length_and_bottom [OF h e] h e show ?thesis by simp
qed

text \<open>
  C9. \<open>card_layout\<close> is a function of the configuration and the card count alone: any
  two values of \<open>focus_card_index\<close> give the same result, a returned sequence or an
  error. As a function of HOL it gives equal results on equal inputs.
\<close>

theorem C9_focus_card_index_unused:
  "card_layout cfg n f1 = card_layout cfg n f2"
  by (simp add: card_layout_def)

text \<open>
  C10. For \<open>cardCount = 1\<close> and every valid configuration, \<open>card_layout\<close> returns
  exactly \<open>[0]\<close>, with no error: the divisor of line 14 is \<open>1 - 4 - 1 = -4\<close>, and the
  only card is the bottom card, which the loop skips.
\<close>

theorem C10_single_card:
  assumes "valid_config cfg"
  shows "card_layout cfg 1 f = Inr [0]"
proof -
  from assms obtain mnc where a: "min_num_cards cfg = Inr mnc"
    by (auto simp: valid_config_def min_num_cards_Inr)
  from assms obtain mpv where b: "min_pixel_visibility cfg = Inr mpv"
    by (auto simp: valid_config_def min_pixel_visibility_Inr)
  obtain lv where c: "leftover_visibility cfg 1 (compression_visibility cfg 1 mnc mpv) = Inr lv"
    by (simp add: leftover_visibility_Inr)
  show ?thesis
    unfolding card_layout_Inr [OF a b c] by (simp add: range_py_def offset_def)
qed

text \<open>At the concrete configuration, with a focus index of 7.\<close>

theorem C10_witness:
  "valid_config scenario \<and> card_layout scenario 1 7 = Inr [0]"
proof -
  have v: "valid_config scenario" by (simp add: valid_config_def scenario_def)
  from C10_single_card [OF v, of 7] v show ?thesis by simp
qed

text \<open>
  C7. For every valid configuration and every \<open>cardCount\<close> with
  \<open>1 \<le> cardCount \<le> minFitCount\<close>, every element of the returned sequence but the last
  equals \<open>defaultVisibility\<close> exactly. The result is known in full: the sequence is
  \<open>cardCount - 1\<close> times \<open>pixel_visibility\<close>, then \<open>0\<close>; at five cards nothing is
  returned, line 14 raises.
\<close>

theorem C7_uncompressed:
  assumes "valid_config cfg" and "min_num_cards cfg = Inr mnc" and "1 \<le> n" and "n \<le> mnc"
  shows "card_layout cfg n f =
           (if n = 5 then Inl ZeroDivisionError
            else Inr (replicate (nat (n - 1)) (pixel_visibility cfg) @ [0])) \<and>
         (\<forall>xs. card_layout cfg n f = Inr xs \<longrightarrow>
            (\<forall>i. i < length xs - 1 \<longrightarrow> xs ! i = pixel_visibility cfg))"
proof -
  have eq: "card_layout cfg n f =
           (if n = 5 then Inl ZeroDivisionError
            else Inr (replicate (nat (n - 1)) (pixel_visibility cfg) @ [0]))"
  proof (cases "n = 5")
    case True
    then show ?thesis by (simp add: card_layout_raises_iff)
  next
    case False
    from assms(1) obtain mpv where b: "min_pixel_visibility cfg = Inr mpv"
      by (auto simp: valid_config_def min_pixel_visibility_Inr)
    from False obtain lv
      where c: "leftover_visibility cfg n (compression_visibility cfg n mnc mpv) = Inr lv"
      by (simp add: leftover_visibility_Inr)
    from False show ?thesis
      unfolding card_layout_Inr [OF assms(2) b c]
      by (simp add: map_offset_uncompressed [OF assms(3,4)])
  qed
  show ?thesis
  proof (intro conjI allI impI)
    show "card_layout cfg n f =
           (if n = 5 then Inl ZeroDivisionError
            else Inr (replicate (nat (n - 1)) (pixel_visibility cfg) @ [0]))"
      by (rule eq)
  next
    fix xs i
    assume r: "card_layout cfg n f = Inr xs" and i: "i < length xs - 1"
    from r eq have xs: "xs = replicate (nat (n - 1)) (pixel_visibility cfg) @ [0]"
      by (simp split: if_splits)
    with i show "xs ! i = pixel_visibility cfg"
      by (simp add: nth_append)
  qed
qed

text \<open>At four cards in the concrete configuration.\<close>

theorem C7_witness:
  "valid_config scenario \<and> min_num_cards scenario = Inr 6 \<and> (1::int) \<le> 4 \<and> (4::int) \<le> 6 \<and>
   card_layout scenario 4 0 = Inr [100, 100, 100, 0] \<and>
   [100, 100, 100, 0::rat] ! 2 = pixel_visibility scenario"
proof -
  have v: "valid_config scenario" by (simp add: valid_config_def scenario_def)
  have m: "min_num_cards scenario = Inr 6" by code_simp
  have a: "(1::int) \<le> 4" and b: "(4::int) \<le> 6" by simp_all
  note t = C7_uncompressed [OF v m a b, of 0]
  from t have e: "card_layout scenario 4 0 = Inr [100, 100, 100, 0]"
    by (simp add: scenario_def numeral_eq_Suc)
  from t e have q: "\<forall>i. i < length [100, 100, 100, 0::rat] - 1 \<longrightarrow>
      [100, 100, 100, 0::rat] ! i = pixel_visibility scenario"
    by blast
  have "[100, 100, 100, 0::rat] ! 2 = pixel_visibility scenario"
    by (rule q [rule_format]) simp
  with v m a b e show ?thesis by blast
qed

text \<open>
  C2. Claim: in the concrete configuration, six cards give \<open>[100,100,100,100,100,0]\<close>,
  and twelve cards give a compressed visibility of \<open>76\<close> at the indices 7, 8, 9 and 10,
  the leftover visibility at the indices 0 to 6, and \<open>0\<close> last. The code agrees on six
  cards, on the compressed visibility \<open>76\<close>, on the indices 0 to 6 and 8 to 11. At
  index 7 it stores the leftover visibility \<open>296 / 7\<close>: the test of line 22,
  \<open>current_card_count - i \<le> COMPRESSED_CARD_GROUP_SIZE\<close>, counts the bottom card among
  the four, while line 14 divides the window among four compressed shifts and
  \<open>cardCount - 5\<close> leftover ones.
\<close>

theorem C2_code_at_12:
  "min_num_cards scenario = Inr 6 \<and>
   card_layout scenario 6 0 = Inr [100, 100, 100, 100, 100, 0] \<and>
   compression_visibility scenario 12 6 (600 / 9) = 76 \<and>
   card_layout scenario 12 0 =
     Inr [296 / 7, 296 / 7, 296 / 7, 296 / 7, 296 / 7, 296 / 7, 296 / 7, 296 / 7, 76, 76, 76, 0]"
  by code_simp

text \<open>
  C3. Claim: \<open>leftover_visibility\<close> is only evaluated when the stack is compressed, so
  five cards that fit (\<open>cardCount = 5 \<le> minFitCount\<close>) are laid out without the division
  by \<open>5 - 4 - 1 = 0\<close>. The code evaluates line 14 on every call, before the loop, though
  only the compressed branch of line 22 reads the value: five cards raise
  \<open>ZeroDivisionError\<close> in the concrete configuration, where six cards fit.
\<close>

theorem C3_code_at_5:
  "min_num_cards scenario = Inr 6 \<and> card_layout scenario 5 0 = Inl ZeroDivisionError"
  by code_simp

text \<open>
  C1. Claim: for every valid input with \<open>cardCount > compressedGroupSize + 1\<close>, the
  offsets add up to \<open>viewportHeight - cardHeight\<close>. In the uncompressed branch
  (lines 19 and 20) every card above the bottom one is shifted by \<open>pixel_visibility\<close>,
  and the stack ends above the bottom of the window. As amended: for every valid input with
  \<open>cardCount > compressedGroupSize + 1\<close>, \<open>card_layout\<close> returns; when
  \<open>cardCount \<le> minFitCount\<close> the offsets add up to
  \<open>(cardCount - 1) * defaultVisibility\<close>, which is less than
  \<open>viewportHeight - cardHeight\<close>; when \<open>cardCount > minFitCount\<close> the leftover
  visibility is the number with
  \<open>compressedGroupSize * compressedVisibility
    + (cardCount - compressedGroupSize - 1) * leftoverVisibility
    = viewportHeight - cardHeight\<close>.
  Nothing is said of the sum of the offsets in the compressed branch (lemma
  \<open>sum_list_compressed\<close> has it).
\<close>

theorem C1_amended:
  assumes "valid_config cfg" and "min_num_cards cfg = Inr mnc"
    and "min_pixel_visibility cfg = Inr mpv" and "COMPRESSED_CARD_GROUP_SIZE + 1 < n"
  shows "\<exists>xs lv. card_layout cfg n f = Inr xs \<and>
           leftover_visibility cfg n (compression_visibility cfg n mnc mpv) = Inr lv \<and>
           (n \<le> mnc \<longrightarrow>
              sum_list xs = of_int (n - 1) * pixel_visibility cfg \<and>
              sum_list xs < window_height cfg - card_height cfg) \<and>
           (mnc < n \<longrightarrow>
              of_int COMPRESSED_CARD_GROUP_SIZE * compression_visibility cfg n mnc mpv +
              of_int (n - COMPRESSED_CARD_GROUP_SIZE - 1) * lv =
              window_height cfg - card_height cfg)"
proof -
  let ?cv = "compression_visibility cfg n mnc mpv"
  from assms(4) have n: "n \<noteq> 5" "1 \<le> n" by (simp_all add: COMPRESSED_CARD_GROUP_SIZE_def)
  from n(1) obtain lv where c: "leftover_visibility cfg n ?cv = Inr lv"
    by (simp add: leftover_visibility_Inr)
  have r: "card_layout cfg n f = Inr (map (offset cfg n mnc ?cv lv) (range_py n))"
    by (rule card_layout_Inr [OF assms(2,3) c])
  have u: "sum_list (map (offset cfg n mnc ?cv lv) (range_py n)) = of_int (n - 1) * pixel_visibility cfg \<and>
           sum_list (map (offset cfg n mnc ?cv lv) (range_py n)) < window_height cfg - card_height cfg"
    if le: "n \<le> mnc"
  proof -
    have s: "sum_list (map (offset cfg n mnc ?cv lv) (range_py n)) = of_int (n - 1) * pixel_visibility cfg"
      using n(2) by (simp add: map_offset_uncompressed [OF n(2) le] sum_list_replicate)
    from assms(1) have p: "0 < pixel_visibility cfg" by (simp add: valid_config_def)
    from le have "(of_int (n - 1) :: rat) \<le> of_int (mnc - 1)" by simp
    with p have "of_int (n - 1) * pixel_visibility cfg \<le> of_int (mnc - 1) * pixel_visibility cfg"
      by (simp add: mult_right_mono)
    also have "\<dots> < window_height cfg - card_height cfg"
      by (rule valid_config_min_num_cards(2) [OF assms(1,2)])
    finally show ?thesis using s by simp
  qed
  have b: "of_int COMPRESSED_CARD_GROUP_SIZE * ?cv + of_int (n - COMPRESSED_CARD_GROUP_SIZE - 1) * lv =
           window_height cfg - card_height cfg"
    by (rule leftover_visibility_budget [OF c])
  from r c u b show ?thesis by blast
qed

text \<open>
  The amended statement in the concrete configuration: at six cards, which fit, and at
  seven, which do not.
\<close>

theorem C1_witness:
  "valid_config scenario \<and> min_num_cards scenario = Inr 6 \<and>
   min_pixel_visibility scenario = Inr (200 / 3) \<and> COMPRESSED_CARD_GROUP_SIZE + 1 < 6 \<and>
   card_layout scenario 6 0 = Inr [100, 100, 100, 100, 100, 0] \<and>
   sum_list [100, 100, 100, 100, 100, 0::rat] = of_int (6 - 1) * pixel_visibility scenario \<and>
   sum_list [100, 100, 100, 100, 100, 0::rat] < window_height scenario - card_height scenario \<and>
   COMPRESSED_CARD_GROUP_SIZE + 1 < 7 \<and>
   leftover_visibility scenario 7 (compression_visibility scenario 7 6 (200 / 3)) = Inr 108 \<and>
   of_int COMPRESSED_CARD_GROUP_SIZE * compression_visibility scenario 7 6 (200 / 3) +
     of_int (7 - COMPRESSED_CARD_GROUP_SIZE - 1) * 108 =
     window_height scenario - card_height scenario"
proof -
  have v: "valid_config scenario" by (simp add: valid_config_def scenario_def)
  have m: "min_num_cards scenario = Inr 6" by code_simp
  have p: "min_pixel_visibility scenario = Inr (200 / 3)" by code_simp
  have g: "COMPRESSED_CARD_GROUP_SIZE + 1 < 6" by (simp add: COMPRESSED_CARD_GROUP_SIZE_def)
  have e: "card_layout scenario 6 0 = Inr [100, 100, 100, 100, 100, 0]" by code_simp
  from C1_amended [OF v m p g, of 0] e
  have x: "sum_list [100, 100, 100, 100, 100, 0::rat] = of_int (6 - 1) * pixel_visibility scenario \<and>
        sum_list [100, 100, 100, 100, 100, 0::rat] < window_height scenario - card_height scenario"
    by auto
  have g': "COMPRESSED_CARD_GROUP_SIZE + 1 < 7" by (simp add: COMPRESSED_CARD_GROUP_SIZE_def)
  have l: "leftover_visibility scenario 7 (compression_visibility scenario 7 6 (200 / 3)) = Inr 108"
    by code_simp
  from C1_amended [OF v m p g', of 0] l
  have y: "of_int COMPRESSED_CARD_GROUP_SIZE * compression_visibility scenario 7 6 (200 / 3) +
     of_int (7 - COMPRESSED_CARD_GROUP_SIZE - 1) * 108 =
     window_height scenario - card_height scenario"
    by auto
  from v m p g e x g' l y show ?thesis by blast
qed

text \<open>
  The claim as stated fails at six cards (sum 500, which the rule of lines 19 and 20
  gives) and at seven cards (sum 612), the window leaving 600.
\<close>

theorem C1_counterexample:
  "card_layout scenario 6 0 = Inr [100, 100, 100, 100, 100, 0] \<and>
   sum_list [100, 100, 100, 100, 100, 0::rat] = 500 \<and>
   card_layout scenario 7 0 = Inr [108, 108, 108, 96, 96, 96, 0] \<and>
   sum_list [108, 108, 108, 96, 96, 96, 0::rat] = 612 \<and>
   window_height scenario - card_height scenario = 600"
  by code_simp

text \<open>
  C4. Claim: every element of the returned sequence is non-negative for every valid input
  with \<open>cardCount \<ge> 1\<close> and \<open>cardCount \<noteq> compressedGroupSize + 1\<close>; in particular
  the leftover visibility is never negative. The numerator of line 14 is negative as soon
  as four compressed shifts exceed the window, and nothing clamps it. As amended: for
  every such input \<open>card_layout\<close> returns, and every element is non-negative exactly when
  \<open>cardCount \<le> minFitCount\<close>, or \<open>cardCount \<le> compressedGroupSize\<close>, or
  \<open>compressedGroupSize * compressedVisibility \<le> viewportHeight - cardHeight\<close>.
\<close>

theorem C4_amended:
  assumes "valid_config cfg" and "min_num_cards cfg = Inr mnc"
    and "min_pixel_visibility cfg = Inr mpv"
    and "1 \<le> n" and "n \<noteq> COMPRESSED_CARD_GROUP_SIZE + 1"
  shows "\<exists>xs. card_layout cfg n f = Inr xs \<and>
           ((\<forall>x \<in> set xs. 0 \<le> x) \<longleftrightarrow>
            (n \<le> mnc \<or> n \<le> COMPRESSED_CARD_GROUP_SIZE \<or>
             of_int COMPRESSED_CARD_GROUP_SIZE * compression_visibility cfg n mnc mpv
               \<le> window_height cfg - card_height cfg))"
proof -
  let ?cv = "compression_visibility cfg n mnc mpv"
  let ?H = "window_height cfg - card_height cfg"
  from assms(5) have n5: "n \<noteq> 5" by (simp add: COMPRESSED_CARD_GROUP_SIZE_def)
  define lv where "lv = (?H - ?cv * 4) / of_int (n - 5)"
  have c: "leftover_visibility cfg n ?cv = Inr lv"
    unfolding lv_def by (rule leftover_visibility_Inr [OF n5])
  have r: "card_layout cfg n f = Inr (map (offset cfg n mnc ?cv lv) (range_py n))"
    by (rule card_layout_Inr [OF assms(2,3) c])
  from assms(1) have p: "0 < pixel_visibility cfg" by (simp add: valid_config_def)
  have cv: "0 < ?cv" by (rule valid_config_compression_visibility(2) [OF assms(1,3)])
  have "(\<forall>x \<in> set (map (offset cfg n mnc ?cv lv) (range_py n)). 0 \<le> x) \<longleftrightarrow>
        (n \<le> mnc \<or> n \<le> 4 \<or> 4 * ?cv \<le> ?H)"
  proof (cases "n \<le> mnc")
    case True
    with p show ?thesis
      by (simp add: map_offset_uncompressed [OF assms(4) True])
  next
    case False
    then have gt: "mnc < n" by simp
    show ?thesis
    proof (cases "n \<le> 4")
      case True
      with cv show ?thesis
        by (simp add: map_offset_small [OF assms(4) True gt])
    next
      case False
      with n5 have n: "5 \<le> n" "6 \<le> n" by simp_all
      then have d: "(0::rat) < of_int (n - 5)" by simp
      have "0 \<le> lv \<longleftrightarrow> 4 * ?cv \<le> ?H"
        unfolding lv_def using d by (simp add: zero_le_divide_iff mult.commute)
      moreover from n(2) have "0 < nat (n - 4)" by simp
      ultimately show ?thesis using cv gt False
        by (auto simp: map_offset_compressed [OF n(1) gt])
    qed
  qed
  with r show ?thesis by (simp add: COMPRESSED_CARD_GROUP_SIZE_def)
qed

text \<open>
  The amended statement at six cards with a default visibility of 200, where the
  condition fails, and at seven cards in the concrete configuration, where it holds.
\<close>

theorem C4_witness:
  "valid_config scenario_wide \<and> min_num_cards scenario_wide = Inr 3 \<and>
   min_pixel_visibility scenario_wide = Inr (200 / 3) \<and> (1::int) \<le> 6 \<and>
   (6::int) \<noteq> COMPRESSED_CARD_GROUP_SIZE + 1 \<and>
   card_layout scenario_wide 6 0 = Inr [- 152, - 152, 188, 188, 188, 0] \<and>
   \<not> (of_int COMPRESSED_CARD_GROUP_SIZE * compression_visibility scenario_wide 6 3 (200 / 3)
        \<le> window_height scenario_wide - card_height scenario_wide) \<and>
   valid_config scenario \<and> min_num_cards scenario = Inr 6 \<and>
   min_pixel_visibility scenario = Inr (200 / 3) \<and> (1::int) \<le> 7 \<and>
   (7::int) \<noteq> COMPRESSED_CARD_GROUP_SIZE + 1 \<and>
   card_layout scenario 7 0 = Inr [108, 108, 108, 96, 96, 96, 0] \<and>
   of_int COMPRESSED_CARD_GROUP_SIZE * compression_visibility scenario 7 6 (200 / 3)
        \<le> window_height scenario - card_height scenario"
proof -
  have v: "valid_config scenario_wide" by (simp add: valid_config_def scenario_wide_def)
  have m: "min_num_cards scenario_wide = Inr 3" by code_simp
  have p: "min_pixel_visibility scenario_wide = Inr (200 / 3)" by code_simp
  have a: "(1::int) \<le> 6" by simp
  have g: "(6::int) \<noteq> COMPRESSED_CARD_GROUP_SIZE + 1" by (simp add: COMPRESSED_CARD_GROUP_SIZE_def)
  have e: "card_layout scenario_wide 6 0 = Inr [- 152, - 152, 188, 188, 188, 0]" by code_simp
  from C4_amended [OF v m p a g, of 0] e
  have x: "\<not> (of_int COMPRESSED_CARD_GROUP_SIZE * compression_visibility scenario_wide 6 3 (200 / 3)
        \<le> window_height scenario_wide - card_height scenario_wide)"
    by (auto simp: COMPRESSED_CARD_GROUP_SIZE_def)
  have v': "valid_config scenario" by (simp add: valid_config_def scenario_def)
  have m': "min_num_cards scenario = Inr 6" by code_simp
  have p': "min_pixel_visibility scenario = Inr (200 / 3)" by code_simp
  have a': "(1::int) \<le> 7" by simp
  have g': "(7::int) \<noteq> COMPRESSED_CARD_GROUP_SIZE + 1" by (simp add: COMPRESSED_CARD_GROUP_SIZE_def)
  have e': "card_layout scenario 7 0 = Inr [108, 108, 108, 96, 96, 96, 0]" by code_simp
  from C4_amended [OF v' m' p' a' g', of 0] e'
  have y: "of_int COMPRESSED_CARD_GROUP_SIZE * compression_visibility scenario 7 6 (200 / 3)
        \<le> window_height scenario - card_height scenario"
    by (auto simp: COMPRESSED_CARD_GROUP_SIZE_def)
  show ?thesis by (intro conjI v m p a g e x v' m' p' a' g' e' y)
qed

text \<open>The claim as stated fails at six cards with a default visibility of 200.\<close>

theorem C4_counterexample:
  "valid_config scenario_wide \<and>
   card_layout scenario_wide 6 0 = Inr [- 152, - 152, 188, 188, 188, 0]"
  by code_simp

end
